theory Spec2Isabelle
  imports Main
begin

section \<open>The Antolin loader: \<^verbatim>\<open>scripts/load_antolin_db.py\<close>\<close>

text \<open>
  The script is Python 2: a \<^verbatim>\<open>str\<close> is a byte string, so the fields of a CSV row are
  modelled as \<^typ>\<open>string\<close> (a list of 8-bit characters) and \<^verbatim>\<open>len\<close> counts bytes.
  Exceptions are values of \<open>exn\<close>; everything the script does to the outside world
  (terminal, database, standard output) is recorded, in order, in a trace of events.
\<close>

subsection \<open>Exceptions, values and events\<close>

datatype exn =
    SystemExit nat
  | EOFError
  | OperationalError
  | IndexError
  | IOError
  | StopIteration
  | ValueError
  | OverflowError
  | UnicodeDecodeError
  | DatabaseError
  | BdbQuit

datatype date = Date int int int

text \<open>
  A parameter of the insertion statement: a decoded text (\<^verbatim>\<open>unicode\<close>), a byte string
  passed through as it is, \<^verbatim>\<open>None\<close>, or a \<^verbatim>\<open>datetime.date\<close>.
\<close>

datatype 'u sql_value = Unicode 'u | Bytes string | Null | DateValue date

datatype 'u event =
    Help
  | Usage
  | Prompt
  | Connect string string string bool
  | OpenFile string
  | Write string
  | Execute "'u sql_value list" bool
  | Debugger
  | Commit

subsection \<open>Library functions the script calls\<close>

text \<open>\<^verbatim>\<open>since.split('.')\<close>: every separator cuts, empty pieces are kept.\<close>

fun split_on :: "char \<Rightarrow> string \<Rightarrow> string list" where
  "split_on c [] = [[]]"
| "split_on c (x # xs) =
     (if x = c then [] # split_on c xs
      else (case split_on c xs of
              [] \<Rightarrow> [[x]]
            | piece # pieces \<Rightarrow> (x # piece) # pieces))"

text \<open>
  \<^verbatim>\<open>int(p)\<close> on a byte string: white space around the literal is skipped, one sign is
  allowed, and at least one decimal digit must follow and nothing else.
\<close>

definition is_space :: "char \<Rightarrow> bool" where
  "is_space c = (of_char c \<in> {9, 10, 11, 12, 13, 32 :: nat})"

definition is_digit :: "char \<Rightarrow> bool" where
  "is_digit c = (48 \<le> (of_char c :: nat) \<and> (of_char c :: nat) \<le> 57)"

definition strip :: "string \<Rightarrow> string" where
  "strip s = rev (dropWhile is_space (rev (dropWhile is_space s)))"

definition digits_value :: "string \<Rightarrow> int" where
  "digits_value ds = foldl (\<lambda>acc c. 10 * acc + (int (of_char c) - 48)) 0 ds"

definition all_digits :: "string \<Rightarrow> bool" where
  "all_digits ds = (ds \<noteq> [] \<and> list_all is_digit ds)"

definition py_int :: "string \<Rightarrow> int option" where
  "py_int s =
     (case strip s of
        [] \<Rightarrow> None
      | c # r \<Rightarrow>
          if c = CHR ''-'' then (if all_digits r then Some (- digits_value r) else None)
          else if c = CHR ''+'' then (if all_digits r then Some (digits_value r) else None)
          else if all_digits (c # r) then Some (digits_value (c # r)) else None)"

text \<open>
  \<^verbatim>\<open>datetime.date(year, month, day)\<close>: the arguments are converted to C ints
  (\<^verbatim>\<open>OverflowError\<close> beyond 32 bits), then checked against the calendar
  (\<^verbatim>\<open>ValueError\<close>); years run from 1 to 9999.
\<close>

definition is_leap :: "int \<Rightarrow> bool" where
  "is_leap y = (y mod 4 = 0 \<and> (y mod 100 \<noteq> 0 \<or> y mod 400 = 0))"

definition days_in_month :: "int \<Rightarrow> int \<Rightarrow> int" where
  "days_in_month y m =
     (if m = 2 then (if is_leap y then 29 else 28)
      else if m = 4 \<or> m = 6 \<or> m = 9 \<or> m = 11 then 30 else 31)"

definition valid_date :: "int \<Rightarrow> int \<Rightarrow> int \<Rightarrow> bool" where
  "valid_date y m d =
     (1 \<le> y \<and> y \<le> 9999 \<and> 1 \<le> m \<and> m \<le> 12 \<and> 1 \<le> d \<and> d \<le> days_in_month y m)"

definition fits_c_int :: "int \<Rightarrow> bool" where
  "fits_c_int v = (- 2147483648 \<le> v \<and> v \<le> 2147483647)"

definition py_date :: "int \<Rightarrow> int \<Rightarrow> int \<Rightarrow> exn + date" where
  "py_date y m d =
     (if \<not> (fits_c_int y \<and> fits_c_int m \<and> fits_c_int d) then Inl OverflowError
      else if valid_date y m d then Inr (Date y m d)
      else Inl ValueError)"

text \<open>
  The strict UTF-8 codec behind \<^verbatim>\<open>s.decode('utf-8')\<close>, on byte values, giving code
  points: lead bytes \<open>C2..DF\<close>, \<open>E0..EF\<close>, \<open>F0..F4\<close> take one, two and three continuation
  bytes; overlong forms and values beyond \<open>10FFFF\<close> are refused. It is used for concrete
  runs only: the loader below takes the codec as a parameter.
\<close>

definition is_cont :: "nat \<Rightarrow> bool" where
  "is_cont b = (128 \<le> b \<and> b < 192)"

fun utf8_points :: "nat list \<Rightarrow> nat list option" where
  "utf8_points [] = Some []"
| "utf8_points (b0 # bs) =
     (if b0 < 128 then map_option ((#) b0) (utf8_points bs)
      else if 194 \<le> b0 \<and> b0 \<le> 223 then
        (case bs of
           b1 # r \<Rightarrow>
             if is_cont b1
             then map_option ((#) ((b0 - 192) * 64 + (b1 - 128))) (utf8_points r)
             else None
         | _ \<Rightarrow> None)
      else if 224 \<le> b0 \<and> b0 \<le> 239 then
        (case bs of
           b1 # b2 # r \<Rightarrow>
             if is_cont b1 \<and> is_cont b2 \<and> \<not> (b0 = 224 \<and> b1 < 160)
             then map_option
                    ((#) ((b0 - 224) * 4096 + (b1 - 128) * 64 + (b2 - 128)))
                    (utf8_points r)
             else None
         | _ \<Rightarrow> None)
      else if 240 \<le> b0 \<and> b0 \<le> 244 then
        (case bs of
           b1 # b2 # b3 # r \<Rightarrow>
             if is_cont b1 \<and> is_cont b2 \<and> is_cont b3
                \<and> \<not> (b0 = 240 \<and> b1 < 144) \<and> \<not> (b0 = 244 \<and> b1 > 143)
             then map_option
                    ((#) ((b0 - 240) * 262144 + (b1 - 128) * 4096
                          + (b2 - 128) * 64 + (b3 - 128)))
                    (utf8_points r)
             else None
         | _ \<Rightarrow> None)
      else None)"

definition utf8_decode :: "string \<Rightarrow> nat list option" where
  "utf8_decode s = utf8_points (map of_char s)"

subsection \<open>Command line (lines 9 to 16 and 25)\<close>

record opts =
  database :: string
  username :: string
  password :: "string option"

text \<open>
  \<^verbatim>\<open>parser.parse_args(argv)\<close> for the three options declared by the script and the help
  option that \<^verbatim>\<open>optparse\<close> adds: short options take their value from the rest of the
  argument or from the next one, long options may be abbreviated and may carry
  \<^verbatim>\<open>=value\<close>, \<^verbatim>\<open>--\<close> ends the options, everything else is positional. A usage error
  exits with status 2, help with status 0. Positional arguments are not counted.
\<close>

datatype parsed = Parsed opts "string list" | Exit nat

definition long_opts :: "string list" where
  "long_opts = [''--help'', ''--database'', ''--username'', ''--password'']"

definition match_long :: "string \<Rightarrow> string option" where
  "match_long s =
     (if s \<in> set long_opts then Some s
      else (case filter (\<lambda>word. take (length s) word = s) long_opts of
              [word] \<Rightarrow> Some word
            | _ \<Rightarrow> None))"

definition short_opt :: "char \<Rightarrow> string option" where
  "short_opt c =
     (if c = CHR ''h'' then Some ''--help''
      else if c = CHR ''d'' then Some ''--database''
      else if c = CHR ''u'' then Some ''--username''
      else if c = CHR ''p'' then Some ''--password''
      else None)"

definition store :: "string \<Rightarrow> string \<Rightarrow> opts \<Rightarrow> opts" where
  "store opt v vals =
     (if opt = ''--database'' then vals\<lparr>database := v\<rparr>
      else if opt = ''--username'' then vals\<lparr>username := v\<rparr>
      else vals\<lparr>password := Some v\<rparr>)"

fun process_args :: "string list \<Rightarrow> string list \<Rightarrow> opts \<Rightarrow> parsed" where
  "process_args [] largs vals = Parsed vals largs"
| "process_args (arg # rargs) largs vals =
     (if arg = ''--'' then Parsed vals (largs @ rargs)
      else if take 2 arg = ''--'' then
        (case match_long (takeWhile (\<lambda>c. c \<noteq> CHR ''='') arg) of
           None \<Rightarrow> Exit 2
         | Some opt \<Rightarrow>
             if opt = ''--help'' then (if CHR ''='' \<in> set arg then Exit 2 else Exit 0)
             else if CHR ''='' \<in> set arg then
               process_args rargs largs
                 (store opt (tl (dropWhile (\<lambda>c. c \<noteq> CHR ''='') arg)) vals)
             else (case rargs of
                     [] \<Rightarrow> Exit 2
                   | v # rest \<Rightarrow> process_args rest largs (store opt v vals)))
      else if take 1 arg = ''-'' \<and> 1 < length arg then
        (case short_opt (arg ! 1) of
           None \<Rightarrow> Exit 2
         | Some opt \<Rightarrow>
             if opt = ''--help'' then Exit 0
             else if 2 < length arg then
               process_args rargs largs (store opt (drop 2 arg) vals)
             else (case rargs of
                     [] \<Rightarrow> Exit 2
                   | v # rest \<Rightarrow> process_args rest largs (store opt v vals)))
      else process_args rargs (largs @ [arg]) vals)"

definition parse_args :: "string list \<Rightarrow> parsed" where
  "parse_args argv =
     process_args argv [] \<lparr>database = ''spils'', username = ''gssb'', password = None\<rparr>"

subsection \<open>The insertion statement (lines 18 to 22)\<close>

definition insert_sql :: string where
  "insert_sql =
     ''INSERT INTO antolin ''
     @ ''(author, title, publisher, isbn10, isbn10_formatted, isbn13, ''
     @ ''isbn13_formatted, book_id, available_since, grade, num_read) ''
     @ ''VALUES (%s, %s, %s, %s, %s, %s, %s, %s, %s, %s, %s)''"

text \<open>The column names of a statement: what stands between its first parentheses.\<close>

definition column_list :: "string \<Rightarrow> string list" where
  "column_list sql =
     map (filter (\<lambda>c. c \<noteq> CHR '' ''))
       (split_on (CHR '','')
          (takeWhile (\<lambda>c. c \<noteq> CHR '')'') (tl (dropWhile (\<lambda>c. c \<noteq> CHR ''('') sql))))"

subsection \<open>The outside world and the state of a run\<close>

text \<open>
  What the script cannot decide by itself is a parameter of the model: the codec, what
  the operator types at the password prompt (\<open>None\<close>: end of input), whether the server
  lets a user in, the records \<^verbatim>\<open>csv.reader\<close> yields for a path (\<open>None\<close>: the file
  cannot be opened), whether the server takes an insert given the rows it already sees,
  and whether the operator leaves the debugger entered at row \<open>idx\<close> with
  \<^verbatim>\<open>continue\<close> (\<open>True\<close>) or with \<^verbatim>\<open>quit\<close>.
\<close>

record 'u world =
  decode :: "string \<Rightarrow> 'u option"
  getpass :: "string option"
  connect :: "string \<Rightarrow> string \<Rightarrow> string \<Rightarrow> bool"
  open_csv :: "string \<Rightarrow> string list list option"
  accepts :: "'u sql_value list list \<Rightarrow> 'u sql_value list \<Rightarrow> bool"
  operator :: "nat \<Rightarrow> bool"

text \<open>
  The trace of events, the rows inserted in the open transaction, and the committed
  rows of table \<^verbatim>\<open>antolin\<close>.
\<close>

record 'u state =
  trace :: "'u event list"
  pending :: "'u sql_value list list"
  table :: "'u sql_value list list"

definition emit :: "'u event \<Rightarrow> 'u state \<Rightarrow> 'u state" where
  "emit e s = s\<lparr>trace := trace s @ [e]\<rparr>"

definition execute :: "'u world \<Rightarrow> 'u sql_value list \<Rightarrow> 'u state \<Rightarrow> exn option \<times> 'u state" where
  "execute w ps s =
     (if accepts w (table s @ pending s) ps
      then (None, s\<lparr>trace := trace s @ [Execute ps True], pending := pending s @ [ps]\<rparr>)
      else (Some DatabaseError, emit (Execute ps False) s))"

definition commit :: "'u state \<Rightarrow> 'u state" where
  "commit s = s\<lparr>trace := trace s @ [Commit], pending := [], table := table s @ pending s\<rparr>"

subsection \<open>One row (lines 46 to 70)\<close>

record fields =
  author :: string
  title :: string
  publisher :: string
  isbn10 :: string
  since :: string
  grade :: string
  num_read :: string
  isbn13 :: string
  isbn10f :: string
  isbn13f :: string
  bookid :: string

text \<open>Lines 46 and 47: the tuple assignment raises unless the row has eleven fields.\<close>

fun unpack_row :: "string list \<Rightarrow> exn + fields" where
  "unpack_row [a, t, p, i10, s, g, r, i13, i10f, i13f, b] =
     Inr \<lparr>author = a, title = t, publisher = p, isbn10 = i10, since = s, grade = g,
          num_read = r, isbn13 = i13, isbn10f = i10f, isbn13f = i13f, bookid = b\<rparr>"
| "unpack_row row = Inl ValueError"

text \<open>
  Line 48: every piece goes through \<^verbatim>\<open>int\<close> first, then the list is unpacked into
  day, month and year.
\<close>

definition parse_since :: "string \<Rightarrow> exn + (int \<times> int \<times> int)" where
  "parse_since s =
     (let ps = map py_int (split_on (CHR ''.'') s)
      in if None \<in> set ps then Inl ValueError
         else (case ps of
                 [Some day, Some month, Some year] \<Rightarrow> Inr (day, month, year)
               | _ \<Rightarrow> Inl ValueError))"

text \<open>Lines 50 to 57: an identifier of the wrong length becomes \<^verbatim>\<open>None\<close>.\<close>

definition check_len :: "nat \<Rightarrow> string \<Rightarrow> 'u sql_value" where
  "check_len n v = (if length v \<noteq> n then Null else Bytes v)"

text \<open>
  Lines 61 to 67, the parameter tuple, evaluated from left to right inside the
  \<^verbatim>\<open>try\<close>.
\<close>

definition build_params ::
  "'u world \<Rightarrow> fields \<Rightarrow> 'u sql_value \<Rightarrow> 'u sql_value \<Rightarrow> 'u sql_value \<Rightarrow> 'u sql_value
     \<Rightarrow> int \<Rightarrow> int \<Rightarrow> int \<Rightarrow> exn + 'u sql_value list" where
  "build_params w f i10 i10f i13 i13f day month year =
     (case decode w (author f) of
        None \<Rightarrow> Inl UnicodeDecodeError
      | Some a \<Rightarrow>
     (case decode w (title f) of
        None \<Rightarrow> Inl UnicodeDecodeError
      | Some t \<Rightarrow>
     (case decode w (publisher f) of
        None \<Rightarrow> Inl UnicodeDecodeError
      | Some p \<Rightarrow>
     (case py_date year month day of
        Inl e \<Rightarrow> Inl e
      | Inr d \<Rightarrow>
          Inr [Unicode a, Unicode t, Unicode p, i10, i10f, i13, i13f, Bytes (bookid f),
               DateValue d, Bytes (grade f), Bytes (num_read f)]))))"

text \<open>
  The transformer: from a raw row to the parameter tuple. An exception of lines 46 to
  48 is outside the \<^verbatim>\<open>try\<close> (\<open>Raised\<close>); one raised while the tuple is built is
  inside it (\<open>RaisedInTry\<close>).
\<close>

datatype 'u transformed = Raised exn | RaisedInTry exn | Params "'u sql_value list"

definition transform_row :: "'u world \<Rightarrow> string list \<Rightarrow> 'u transformed" where
  "transform_row w row =
     (case unpack_row row of
        Inl e \<Rightarrow> Raised e
      | Inr f \<Rightarrow>
     (case parse_since (since f) of
        Inl e \<Rightarrow> Raised e
      | Inr (day, month, year) \<Rightarrow>
          let i13 = check_len 13 (isbn13 f);
              i13f = check_len 17 (isbn13f f);
              i10 = check_len 10 (isbn10 f);
              i10f = check_len 13 (isbn10f f)
          in (case build_params w f i10 i10f i13 i13f day month year of
                Inl e \<Rightarrow> RaisedInTry e
              | Inr ps \<Rightarrow> Params ps)))"

text \<open>Lines 69 and 70: the handler enters the debugger; the operator decides.\<close>

definition handler :: "'u world \<Rightarrow> nat \<Rightarrow> 'u state \<Rightarrow> exn option \<times> 'u state" where
  "handler w idx s =
     (if operator w idx then (None, emit Debugger s) else (Some BdbQuit, emit Debugger s))"

definition row_step :: "'u world \<Rightarrow> nat \<Rightarrow> string list \<Rightarrow> 'u state \<Rightarrow> exn option \<times> 'u state" where
  "row_step w idx row s =
     (let s1 = (if idx mod 100 = 0 then emit (Write ''.'') s else s)
      in case transform_row w row of
           Raised e \<Rightarrow> (Some e, s1)
         | RaisedInTry e \<Rightarrow> handler w idx s1
         | Params ps \<Rightarrow>
             (case execute w ps s1 of
                (None, s2) \<Rightarrow> (None, s2)
              | (Some e, s2) \<Rightarrow> handler w idx s2))"

subsection \<open>The loop and the program (lines 24 to 72)\<close>

fun loop :: "'u world \<Rightarrow> nat \<Rightarrow> string list list \<Rightarrow> 'u state \<Rightarrow> exn option \<times> 'u state" where
  "loop w idx [] s = (None, s)"
| "loop w idx (row # rows) s =
     (case row_step w idx row s of
        (None, s') \<Rightarrow> loop w (Suc idx) rows s'
      | (Some e, s') \<Rightarrow> (Some e, s'))"

definition falsy :: "string option \<Rightarrow> bool" where
  "falsy p = (p = None \<or> p = Some [])"

definition main_body ::
  "'u world \<Rightarrow> opts \<Rightarrow> string list \<Rightarrow> 'u state \<Rightarrow> exn option \<times> 'u state" where
  "main_body w os args s0 =
     (let prompted = falsy (password os);
          s1 = (if prompted then emit Prompt s0 else s0)
      in case (if prompted then getpass w else password os) of
           None \<Rightarrow> (Some EOFError, s1)
         | Some pw \<Rightarrow>
             let ok = connect w (username os) pw (database os);
                 s2 = emit (Connect (username os) pw (database os) ok) s1
             in if \<not> ok then (Some OperationalError, s2)
                else (case args of
                        [] \<Rightarrow> (Some IndexError, s2)
                      | path # _ \<Rightarrow>
                          (case open_csv w path of
                             None \<Rightarrow> (Some IOError, s2)
                           | Some rows \<Rightarrow>
                               (case rows of
                                  [] \<Rightarrow> (Some StopIteration, emit (OpenFile path) s2)
                                | header # data \<Rightarrow>
                                    (case loop w 0 data (emit (OpenFile path) s2) of
                                       (Some e, s4) \<Rightarrow> (Some e, s4)
                                     | (None, s4) \<Rightarrow>
                                         (None, emit (Write [CHR 0x0A]) (commit s4)))))))"

definition main :: "'u world \<Rightarrow> string list \<Rightarrow> 'u state \<Rightarrow> exn option \<times> 'u state" where
  "main w argv s0 =
     (case parse_args argv of
        Exit n \<Rightarrow> (Some (SystemExit n), emit (if n = 0 then Help else Usage) s0)
      | Parsed os args \<Rightarrow> main_body w os args s0)"

definition fresh :: "'u sql_value list list \<Rightarrow> 'u state" where
  "fresh tbl = \<lparr>trace = [], pending = [], table = tbl\<rparr>"

subsection \<open>Reading a trace\<close>

text \<open>The rows a trace inserted successfully, its progress dots, and the events of the loop.\<close>

fun inserted :: "'u event list \<Rightarrow> 'u sql_value list list" where
  "inserted [] = []"
| "inserted (Execute ps True # es) = ps # inserted es"
| "inserted (e # es) = inserted es"

definition dots :: "'u event list \<Rightarrow> nat" where
  "dots es = length (filter (\<lambda>e. e = Write ''.'') es)"

definition row_event :: "'u event \<Rightarrow> bool" where
  "row_event e =
     (case e of Write x \<Rightarrow> x = ''.'' | Execute ps ok \<Rightarrow> True | Debugger \<Rightarrow> True | _ \<Rightarrow> False)"

text \<open>The rows of a file that give a parameter tuple, in order.\<close>

definition tuples :: "'u world \<Rightarrow> string list list \<Rightarrow> 'u sql_value list list" where
  "tuples w data =
     concat (map (\<lambda>row. case transform_row w row of Params ps \<Rightarrow> [ps] | _ \<Rightarrow> []) data)"

text \<open>The decimal numeral of a natural number, as \<^verbatim>\<open>str\<close> prints it.\<close>

fun dec :: "nat \<Rightarrow> string" where
  "dec n = (if n < 10 then [char_of (48 + n)] else dec (n div 10) @ [char_of (48 + n mod 10)])"

declare dec.simps [simp del]

subsection \<open>A concrete world\<close>

text \<open>
  The operator types \<^verbatim>\<open>secret\<close> at the prompt, the server lets everybody in and takes
  every insert, the only file is \<^verbatim>\<open>antolin.csv\<close>, and the operator always continues
  from the debugger.
\<close>

definition sample_world :: "string list list \<Rightarrow> nat list world" where
  "sample_world rows =
     \<lparr>decode = utf8_decode, getpass = Some ''secret'', connect = (\<lambda>u p d. True),
      open_csv = (\<lambda>path. if path = ''antolin.csv'' then Some rows else None),
      accepts = (\<lambda>seen ps. True), operator = (\<lambda>idx. True)\<rparr>"

definition header_row :: "string list" where
  "header_row = [''Autor'', ''Titel'']"

definition momo :: "string \<Rightarrow> string \<Rightarrow> string \<Rightarrow> string \<Rightarrow> string list" where
  "momo a i10 s i13 =
     [a, ''Momo'', ''Thienemann'', i10, s, ''5'', ''12'', i13, ''3-522-11940-1'',
      ''978-3-522-11940-5'', ''4711'']"

definition momo_params :: "nat list sql_value \<Rightarrow> nat list sql_value \<Rightarrow> nat list sql_value list" where
  "momo_params i10 i13 =
     [Unicode [69, 110, 100, 101], Unicode [77, 111, 109, 111],
      Unicode [84, 104, 105, 101, 110, 101, 109, 97, 110, 110],
      i10, Bytes ''3-522-11940-1'', i13, Bytes ''978-3-522-11940-5'', Bytes ''4711'',
      DateValue (Date 2004 3 5), Bytes ''5'', Bytes ''12'']"

section \<open>Properties\<close>

subsection \<open>The transformer\<close>

lemma insert_columns:
  "column_list insert_sql =
     [''author'', ''title'', ''publisher'', ''isbn10'', ''isbn10_formatted'', ''isbn13'',
      ''isbn13_formatted'', ''book_id'', ''available_since'', ''grade'', ''num_read'']"
  by (simp add: column_list_def insert_sql_def)

lemma build_params_Inr:
  "build_params w f i10 i10f i13 i13f day month year = Inr ps \<Longrightarrow>
   \<exists>ua ut up d.
     decode w (author f) = Some ua \<and> decode w (title f) = Some ut \<and>
     decode w (publisher f) = Some up \<and> py_date year month day = Inr d \<and>
     ps = [Unicode ua, Unicode ut, Unicode up, i10, i10f, i13, i13f, Bytes (bookid f),
           DateValue d, Bytes (grade f), Bytes (num_read f)]"
  unfolding build_params_def
  by (cases "decode w (author f)"; cases "decode w (title f)";
      cases "decode w (publisher f)"; cases "py_date year month day") simp_all

lemma build_params_Inl:
  "build_params w f i10 i10f i13 i13f day month year = Inl e \<Longrightarrow>
   author f' = author f \<Longrightarrow> title f' = title f \<Longrightarrow> publisher f' = publisher f \<Longrightarrow>
   build_params w f' j10 j10f j13 j13f day month year = Inl e"
  unfolding build_params_def
  by (cases "decode w (author f)"; cases "decode w (title f)";
      cases "decode w (publisher f)"; cases "py_date year month day") simp_all

lemma transform_row_eleven:
  "transform_row w [a, t, p, i10, s, g, r, i13, i10f, i13f, b] =
     (case parse_since s of
        Inl e \<Rightarrow> Raised e
      | Inr (day, month, year) \<Rightarrow>
          (case build_params w
                  \<lparr>author = a, title = t, publisher = p, isbn10 = i10, since = s,
                   grade = g, num_read = r, isbn13 = i13, isbn10f = i10f,
                   isbn13f = i13f, bookid = b\<rparr>
                  (check_len 10 i10) (check_len 13 i10f) (check_len 13 i13)
                  (check_len 17 i13f) day month year of
             Inl e \<Rightarrow> RaisedInTry e
           | Inr ps \<Rightarrow> Params ps))"
  by (simp add: transform_row_def Let_def split: sum.split prod.split)

lemma transform_row_Params:
  assumes "transform_row w [a, t, p, i10, s, g, r, i13, i10f, i13f, b] = Params ps"
  shows "\<exists>ua ut up day month year d.
     decode w a = Some ua \<and> decode w t = Some ut \<and> decode w p = Some up \<and>
     parse_since s = Inr (day, month, year) \<and> py_date year month day = Inr d \<and>
     ps = [Unicode ua, Unicode ut, Unicode up, check_len 10 i10, check_len 13 i10f,
           check_len 13 i13, check_len 17 i13f, Bytes b, DateValue d, Bytes g, Bytes r]"
proof (cases "parse_since s")
  case (Inl e)
  with assms show ?thesis by (simp add: transform_row_eleven)
next
  case (Inr dmy)
  obtain day month year where dmy: "dmy = (day, month, year)" by (cases dmy) auto
  let ?f = "\<lparr>author = a, title = t, publisher = p, isbn10 = i10, since = s, grade = g,
          num_read = r, isbn13 = i13, isbn10f = i10f, isbn13f = i13f, bookid = b\<rparr>"
  from assms Inr dmy
  have "build_params w ?f (check_len 10 i10) (check_len 13 i10f) (check_len 13 i13)
          (check_len 17 i13f) day month year = Inr ps"
    by (simp add: transform_row_eleven split: sum.splits)
  from build_params_Inr [OF this] Inr dmy show ?thesis by simp
qed

lemma transform_row_raise_ids:
  assumes "\<And>ps. transform_row w [a, t, p, i10, s, g, r, i13, i10f, i13f, b] \<noteq> Params ps"
  shows "transform_row w [a, t, p, j10, s, g, r, j13, j10f, j13f, b]
         = transform_row w [a, t, p, i10, s, g, r, i13, i10f, i13f, b]"
proof (cases "parse_since s")
  case (Inl e)
  then show ?thesis by (simp add: transform_row_eleven)
next
  case (Inr dmy)
  obtain day month year where dmy: "dmy = (day, month, year)" by (cases dmy) auto
  let ?f = "\<lparr>author = a, title = t, publisher = p, isbn10 = i10, since = s, grade = g,
          num_read = r, isbn13 = i13, isbn10f = i10f, isbn13f = i13f, bookid = b\<rparr>"
  let ?f' = "\<lparr>author = a, title = t, publisher = p, isbn10 = j10, since = s, grade = g,
          num_read = r, isbn13 = j13, isbn10f = j10f, isbn13f = j13f, bookid = b\<rparr>"
  from assms Inr dmy obtain e where
    e: "build_params w ?f (check_len 10 i10) (check_len 13 i10f) (check_len 13 i13)
          (check_len 17 i13f) day month year = Inl e"
    by (cases "build_params w ?f (check_len 10 i10) (check_len 13 i10f) (check_len 13 i13)
          (check_len 17 i13f) day month year") (auto simp: transform_row_eleven)
  have "build_params w ?f' (check_len 10 j10) (check_len 13 j10f) (check_len 13 j13)
          (check_len 17 j13f) day month year = Inl e"
    by (rule build_params_Inl [OF e]) simp_all
  with e Inr dmy show ?thesis by (simp add: transform_row_eleven)
qed

lemmas eval_row =
  transform_row_eleven sample_world_def momo_def momo_params_def parse_since_def py_int_def
  strip_def is_space_def all_digits_def is_digit_def digits_value_def build_params_def
  utf8_decode_def is_cont_def py_date_def fits_c_int_def valid_date_def days_in_month_def
  is_leap_def check_len_def

lemma momo_ok:
  "transform_row (sample_world rows) (momo ''Ende'' ''3522119401'' ''5.3.2004'' ''9783522119405'')
     = Params (momo_params (Bytes ''3522119401'') (Bytes ''9783522119405''))"
  by (simp add: eval_row)

lemma momo_short_ids:
  "transform_row (sample_world rows) (momo ''Ende'' ''012345678'' ''5.3.2004'' ''978352211940'')
     = Params (momo_params Null Null)"
  by (simp add: eval_row)

lemma momo_bad_since:
  "transform_row (sample_world rows) (momo ''Ende'' i10 ''2004-03-05'' i13) = Raised ValueError"
  by (simp add: eval_row)

lemma momo_bad_author:
  "transform_row (sample_world rows) (momo [CHR 0xFF] i10 ''5.3.2004'' i13)
     = RaisedInTry UnicodeDecodeError"
  by (simp add: eval_row)

lemma momo_bad_day:
  "transform_row (sample_world rows) (momo ''Ende'' i10 ''31.2.2004'' i13)
     = RaisedInTry ValueError"
  by (simp add: eval_row)

text \<open>
  C1. A row is taken apart in the order author, title, publisher, isbn10,
  available_since, grade, num_read, isbn13, isbn10_formatted, isbn13_formatted, book_id,
  and in the parameter tuple every one of these fields stands at the place of the column
  of the same name in the column list of the insertion statement: pairing the column
  list with the tuple gives author, title and publisher decoded, the four identifiers
  after their length check, book_id, the date made from available_since, grade and
  num_read.
\<close>

theorem params_follow_columns:
  assumes "transform_row w [a, t, p, i10, s, g, r, i13, i10f, i13f, b] = Params ps"
  shows "\<exists>ua ut up day month year d.
     decode w a = Some ua \<and> decode w t = Some ut \<and> decode w p = Some up \<and>
     parse_since s = Inr (day, month, year) \<and> py_date year month day = Inr d \<and>
     zip (column_list insert_sql) ps =
       [(''author'', Unicode ua), (''title'', Unicode ut), (''publisher'', Unicode up),
        (''isbn10'', check_len 10 i10), (''isbn10_formatted'', check_len 13 i10f),
        (''isbn13'', check_len 13 i13), (''isbn13_formatted'', check_len 17 i13f),
        (''book_id'', Bytes b), (''available_since'', DateValue d),
        (''grade'', Bytes g), (''num_read'', Bytes r)]"
proof -
  from transform_row_Params [OF assms] obtain ua ut up day month year d where
    h: "decode w a = Some ua" "decode w t = Some ut" "decode w p = Some up"
       "parse_since s = Inr (day, month, year)" "py_date year month day = Inr d"
       "ps = [Unicode ua, Unicode ut, Unicode up, check_len 10 i10, check_len 13 i10f,
           check_len 13 i13, check_len 17 i13f, Bytes b, DateValue d, Bytes g, Bytes r]"
    by blast
  have "zip (column_list insert_sql) ps =
       [(''author'', Unicode ua), (''title'', Unicode ut), (''publisher'', Unicode up),
        (''isbn10'', check_len 10 i10), (''isbn10_formatted'', check_len 13 i10f),
        (''isbn13'', check_len 13 i13), (''isbn13_formatted'', check_len 17 i13f),
        (''book_id'', Bytes b), (''available_since'', DateValue d),
        (''grade'', Bytes g), (''num_read'', Bytes r)]"
    by (simp add: insert_columns h(6))
  with h(1-5) show ?thesis by blast
qed

theorem params_follow_columns_witness:
  "transform_row (sample_world [])
     [''Ende'', ''Momo'', ''Thienemann'', ''3522119401'', ''5.3.2004'', ''5'', ''12'',
      ''9783522119405'', ''3-522-11940-1'', ''978-3-522-11940-5'', ''4711'']
     = Params (momo_params (Bytes ''3522119401'') (Bytes ''9783522119405''))
   \<and> (\<exists>ua ut up day month year d.
     decode (sample_world []) ''Ende'' = Some ua \<and>
     decode (sample_world []) ''Momo'' = Some ut \<and>
     decode (sample_world []) ''Thienemann'' = Some up \<and>
     parse_since ''5.3.2004'' = Inr (day, month, year) \<and> py_date year month day = Inr d \<and>
     zip (column_list insert_sql) (momo_params (Bytes ''3522119401'') (Bytes ''9783522119405'')) =
       [(''author'', Unicode ua), (''title'', Unicode ut), (''publisher'', Unicode up),
        (''isbn10'', check_len 10 ''3522119401''),
        (''isbn10_formatted'', check_len 13 ''3-522-11940-1''),
        (''isbn13'', check_len 13 ''9783522119405''),
        (''isbn13_formatted'', check_len 17 ''978-3-522-11940-5''),
        (''book_id'', Bytes ''4711''), (''available_since'', DateValue d),
        (''grade'', Bytes ''5''), (''num_read'', Bytes ''12'')])"
proof -
  have h: "transform_row (sample_world [])
     [''Ende'', ''Momo'', ''Thienemann'', ''3522119401'', ''5.3.2004'', ''5'', ''12'',
      ''9783522119405'', ''3-522-11940-1'', ''978-3-522-11940-5'', ''4711'']
     = Params (momo_params (Bytes ''3522119401'') (Bytes ''9783522119405''))"
    using momo_ok [of "[]"] by (simp add: momo_def)
  from h params_follow_columns [OF h] show ?thesis by blast
qed

text \<open>
  C2. In the tuple of a transformed row, each of the columns isbn10, isbn10_formatted,
  isbn13 and isbn13_formatted holds the field unchanged when its length is exactly 10,
  13, 13 and 17, and null otherwise. No identifier ever raises: a row that raises does so
  with the same exception whatever its four identifiers are.
\<close>

theorem identifier_lengths:
  "(transform_row w [a, t, p, i10, s, g, r, i13, i10f, i13f, b] = Params ps \<longrightarrow>
      map_of (zip (column_list insert_sql) ps) ''isbn10''
        = Some (if length i10 = 10 then Bytes i10 else Null) \<and>
      map_of (zip (column_list insert_sql) ps) ''isbn10_formatted''
        = Some (if length i10f = 13 then Bytes i10f else Null) \<and>
      map_of (zip (column_list insert_sql) ps) ''isbn13''
        = Some (if length i13 = 13 then Bytes i13 else Null) \<and>
      map_of (zip (column_list insert_sql) ps) ''isbn13_formatted''
        = Some (if length i13f = 17 then Bytes i13f else Null)) \<and>
   ((\<forall>qs. transform_row w [a, t, p, i10, s, g, r, i13, i10f, i13f, b] \<noteq> Params qs) \<longrightarrow>
      transform_row w [a, t, p, j10, s, g, r, j13, j10f, j13f, b]
        = transform_row w [a, t, p, i10, s, g, r, i13, i10f, i13f, b])"
proof (intro conjI impI)
  assume "\<forall>qs. transform_row w [a, t, p, i10, s, g, r, i13, i10f, i13f, b] \<noteq> Params qs"
  then show "transform_row w [a, t, p, j10, s, g, r, j13, j10f, j13f, b]
        = transform_row w [a, t, p, i10, s, g, r, i13, i10f, i13f, b]"
    by (intro transform_row_raise_ids) blast
next
  assume h: "transform_row w [a, t, p, i10, s, g, r, i13, i10f, i13f, b] = Params ps"
  from transform_row_Params [OF h] obtain ua ut up d where
    ps: "ps = [Unicode ua, Unicode ut, Unicode up, check_len 10 i10, check_len 13 i10f,
           check_len 13 i13, check_len 17 i13f, Bytes b, DateValue d, Bytes g, Bytes r]"
    by blast
  show "map_of (zip (column_list insert_sql) ps) ''isbn10''
        = Some (if length i10 = 10 then Bytes i10 else Null)"
    by (simp add: insert_columns ps check_len_def)
  show "map_of (zip (column_list insert_sql) ps) ''isbn10_formatted''
        = Some (if length i10f = 13 then Bytes i10f else Null)"
    by (simp add: insert_columns ps check_len_def)
  show "map_of (zip (column_list insert_sql) ps) ''isbn13''
        = Some (if length i13 = 13 then Bytes i13 else Null)"
    by (simp add: insert_columns ps check_len_def)
  show "map_of (zip (column_list insert_sql) ps) ''isbn13_formatted''
        = Some (if length i13f = 17 then Bytes i13f else Null)"
    by (simp add: insert_columns ps check_len_def)
qed

theorem identifier_lengths_witness:
  "transform_row (sample_world [])
     [''Ende'', ''Momo'', ''Thienemann'', ''012345678'', ''5.3.2004'', ''5'', ''12'',
      ''978352211940'', ''3-522-11940-1'', ''978-3-522-11940-5'', ''4711'']
     = Params (momo_params Null Null)
   \<and> map_of (zip (column_list insert_sql) (momo_params Null Null)) ''isbn10'' = Some Null
   \<and> map_of (zip (column_list insert_sql) (momo_params Null Null)) ''isbn10_formatted''
       = Some (Bytes ''3-522-11940-1'')
   \<and> map_of (zip (column_list insert_sql) (momo_params Null Null)) ''isbn13'' = Some Null
   \<and> map_of (zip (column_list insert_sql) (momo_params Null Null)) ''isbn13_formatted''
       = Some (Bytes ''978-3-522-11940-5'')
   \<and> (\<forall>qs. transform_row (sample_world [])
          [''Ende'', ''Momo'', ''Thienemann'', ''012345678'', ''2004-03-05'', ''5'', ''12'',
           ''978352211940'', ''3-522-11940-1'', ''978-3-522-11940-5'', ''4711''] \<noteq> Params qs)
   \<and> transform_row (sample_world [])
        [''Ende'', ''Momo'', ''Thienemann'', ''0123456789'', ''2004-03-05'', ''5'', ''12'',
         ''9783522119405'', ''3-522-11940-1'', ''978-3-522-11940-5'', ''4711'']
      = transform_row (sample_world [])
          [''Ende'', ''Momo'', ''Thienemann'', ''012345678'', ''2004-03-05'', ''5'', ''12'',
           ''978352211940'', ''3-522-11940-1'', ''978-3-522-11940-5'', ''4711'']"
proof -
  have h: "transform_row (sample_world [])
     [''Ende'', ''Momo'', ''Thienemann'', ''012345678'', ''5.3.2004'', ''5'', ''12'',
      ''978352211940'', ''3-522-11940-1'', ''978-3-522-11940-5'', ''4711'']
     = Params (momo_params Null Null)"
    using momo_short_ids [of "[]"] by (simp add: momo_def)
  have n: "\<forall>qs. transform_row (sample_world [])
          [''Ende'', ''Momo'', ''Thienemann'', ''012345678'', ''2004-03-05'', ''5'', ''12'',
           ''978352211940'', ''3-522-11940-1'', ''978-3-522-11940-5'', ''4711''] \<noteq> Params qs"
    using momo_bad_since [of "[]" "''012345678''" "''978352211940''"] by (simp add: momo_def)
  note t = identifier_lengths
    [of "sample_world []" "''Ende''" "''Momo''" "''Thienemann''" _ _ "''5''" "''12''" _
        "''3-522-11940-1''" "''978-3-522-11940-5''" "''4711''"]
  from t [of "''012345678''" "''5.3.2004''" "''978352211940''" "momo_params Null Null",
           THEN conjunct1, rule_format, OF h]
  have ids: "map_of (zip (column_list insert_sql) (momo_params Null Null)) ''isbn10'' = Some Null"
    "map_of (zip (column_list insert_sql) (momo_params Null Null)) ''isbn10_formatted''
       = Some (Bytes ''3-522-11940-1'')"
    "map_of (zip (column_list insert_sql) (momo_params Null Null)) ''isbn13'' = Some Null"
    "map_of (zip (column_list insert_sql) (momo_params Null Null)) ''isbn13_formatted''
       = Some (Bytes ''978-3-522-11940-5'')"
    by simp_all
  from t [of "''012345678''" "''2004-03-05''" "''978352211940''" _ "''0123456789''"
             "''9783522119405''" "''3-522-11940-1''" "''978-3-522-11940-5''",
           THEN conjunct2, THEN mp, OF n]
  have same: "transform_row (sample_world [])
        [''Ende'', ''Momo'', ''Thienemann'', ''0123456789'', ''2004-03-05'', ''5'', ''12'',
         ''9783522119405'', ''3-522-11940-1'', ''978-3-522-11940-5'', ''4711'']
      = transform_row (sample_world [])
          [''Ende'', ''Momo'', ''Thienemann'', ''012345678'', ''2004-03-05'', ''5'', ''12'',
           ''978352211940'', ''3-522-11940-1'', ''978-3-522-11940-5'', ''4711'']" .
  from h ids n same show ?thesis by blast
qed

end
